theory Spec2Isabelle
  imports Main
begin

section \<open>The travel-agent workflow (src/workflow.py)\<close>

text \<open>
  The workflow is a directed graph of seven stages (nodes), each a Python function
  that reads the shared state, calls one external collaborator (a language-model
  agent or a service object), stores the answer in one state field and names the
  next stage.  The collaborators are module-level singletons of the source; here
  they are fields of an environment record, each a function of the step number and
  of what the source passes to the collaborator, returning either a value or the
  exception the collaborator raised.
\<close>

subsection \<open>Exceptions\<close>

text \<open>
  The exceptions the source names or provokes, and \<open>CollaboratorError\<close> for any
  other exception that an external collaborator raises.
\<close>

datatype exn =
    ValueError string
  | IndexError
  | KeyError string
  | TypeError
  | JSONDecodeError
  | ValidationError
  | InvalidUpdateError
  | CollaboratorError string

subsection \<open>The data model\<close>

datatype message = HumanMessage (content: string) | AIMessage (content: string)

text \<open>
  Modelled from the spec: \<open>HotelInfo\<close> is declared in models.py, which is not among
  the sources; its five fields are those of the JSON format that the hotel agent's
  prompt prescribes (name, nightly price, review count, rating, link).
\<close>

record hotel_info =
  name :: string
  price_per_night :: int
  review_count :: int
  rating :: int
  url :: string

text \<open>
  A summary is whatever \<open>generate_summary\<close> returns.  The source distinguishes a
  dict, of which it reads the key \<open>summary\<close>, from any other object, of which it
  takes \<open>str(...)\<close>; so a summary is either a dict (keys with values that are a
  string or not) or another object, given by its \<open>str\<close>.
\<close>

datatype py_value = PyStr string | PyOther

datatype summary_value = SummaryDict "(string \<times> py_value) list" | SummaryObj string

text \<open>
  Modelled from the spec: \<open>WorkflowState\<close> and \<open>QueryAnalysisResult\<close> are declared in
  models.py, which is not among the sources.  The fields are the ones workflow.py
  reads, writes or passes to the constructor; \<open>None\<close> is an unset field.  The
  trip parameters are only copied, never inspected, by the workflow.
\<close>

record workflow_state =
  messages :: "message list"
  destination :: "string option"
  budget :: "int option"
  native_currency :: "string option"
  days :: "int option"
  group_size :: "int option"
  activity_preferences :: "string option"
  accommodation_type :: "string option"
  dietary_restrictions :: "string option"
  transportation_preferences :: "string option"
  hotels :: "hotel_info list option"
  weather :: "string option"
  attractions :: "string option"
  calculator_result :: "string option"
  itinerary :: "string option"
  summary :: "summary_value option"

record query_analysis_result =
  qa_destination :: "string option"
  qa_budget :: "int option"
  qa_native_currency :: "string option"
  qa_days :: "int option"
  qa_group_size :: "int option"
  qa_activity_preferences :: "string option"
  qa_accommodation_type :: "string option"
  qa_dietary_restrictions :: "string option"
  qa_transportation_preferences :: "string option"

text \<open>The dict that \<open>node_summary_agent\<close> passes to \<open>generate_summary\<close>.\<close>

record summary_request =
  sr_messages :: "message list"
  sr_destination :: "string option"
  sr_days :: "int option"
  sr_attractions :: "string option"
  sr_hotel_info :: "hotel_info list option"
  sr_weather :: "string option"
  sr_itinerary :: "string option"
  sr_calculator_result :: "string option"

subsection \<open>The collaborators\<close>

text \<open>
  One field per collaborator that workflow.py calls.  The first argument is the
  number of the step at which the call is made, so that a collaborator may answer
  differently each time it is asked.  \<open>hotels_of_json\<close> stands for
  \<open>json.loads\<close> followed by \<open>[HotelInfo(**h) for h in hotels_data]\<close>.  The last two
  fields are Python's own: \<open>unicode_alnum\<close> is the table of the code points that count
  as letters or numbers (\<open>str.isalnum\<close>), which \<open>\w\<close> consults, and \<open>str_lower\<close> is
  \<open>str.lower\<close>; neither table is part of the sources.
\<close>

record env =
  travel_evaluator :: "nat \<Rightarrow> string \<Rightarrow> exn + string"
  query_analyzer :: "nat \<Rightarrow> string \<Rightarrow> exn + query_analysis_result"
  hotel_agent :: "nat \<Rightarrow> workflow_state \<Rightarrow> exn + string"
  hotels_of_json :: "string \<Rightarrow> exn + hotel_info list"
  weather_agent :: "nat \<Rightarrow> message list \<Rightarrow> exn + string"
  attractions_agent :: "nat \<Rightarrow> workflow_state \<Rightarrow> exn + string"
  calculator_agent :: "nat \<Rightarrow> workflow_state \<Rightarrow> exn + string"
  itinerary_builder :: "nat \<Rightarrow> workflow_state \<Rightarrow> exn + string"
  summary_generator :: "nat \<Rightarrow> summary_request \<Rightarrow> exn + summary_value"
  unicode_alnum :: "nat \<Rightarrow> bool"
  str_lower :: "string \<Rightarrow> string"

subsection \<open>Strings and the regeneration pattern\<close>

text \<open>
  A Python \<open>str\<close> is a sequence of code points; a \<open>string\<close> here is its UTF-8 encoding,
  one \<open>char\<close> for each byte.  An ASCII character is one byte below 128, any other
  character is a lead byte followed by one to three continuation bytes, and no
  byte of such a sequence is below 128: so an ASCII text occurs in a \<open>str\<close> exactly
  where its bytes occur in the encoding.
\<close>

definition ascii_word :: "char \<Rightarrow> bool" where
  "ascii_word c =
     (let n = (of_char c :: nat)
      in (48 \<le> n \<and> n \<le> 57) \<or> (65 \<le> n \<and> n \<le> 90) \<or> (97 \<le> n \<and> n \<le> 122) \<or> n = 95)"

text \<open>The number of bytes of the character that begins with the byte \<open>c\<close>.\<close>

definition utf8_width :: "char \<Rightarrow> nat" where
  "utf8_width c =
     (let n = (of_char c :: nat)
      in if 192 \<le> n \<and> n < 224 then 2
         else if 224 \<le> n \<and> n < 240 then 3
         else if 240 \<le> n \<and> n < 248 then 4
         else 1)"

text \<open>The code point of the first character of a text.\<close>

definition code_point :: "string \<Rightarrow> nat" where
  "code_point text =
     (case text of
        [] \<Rightarrow> 0
      | c # cs \<Rightarrow>
          (let n = (of_char c :: nat); w = utf8_width c
           in if w = 1 then n
              else fold (\<lambda>b acc. acc * 64 + (of_char b :: nat) mod 64) (take (w - 1) cs)
                     (if w = 2 then n mod 32 else if w = 3 then n mod 16 else n mod 8)))"

text \<open>
  \<open>\w\<close> on a \<open>str\<close>: an ASCII letter, digit or underscore, or a character beyond ASCII
  that Python's table counts as a letter or a number.  The test looks at the first
  character of the text.
\<close>

definition is_word_char :: "(nat \<Rightarrow> bool) \<Rightarrow> string \<Rightarrow> bool" where
  "is_word_char alnum text =
     (case text of
        [] \<Rightarrow> False
      | c # cs \<Rightarrow> if (of_char c :: nat) < 128 then ascii_word c else alnum (code_point text))"

text \<open>The length, in bytes, of the longest run of word characters at the head of a text.\<close>

fun word_run :: "(nat \<Rightarrow> bool) \<Rightarrow> string \<Rightarrow> nat" where
  "word_run alnum [] = 0"
| "word_run alnum (c # cs) =
     (if is_word_char alnum (c # cs)
      then utf8_width c + word_run alnum (drop (utf8_width c - 1) cs)
      else 0)"

text \<open>A lower-casing of the ASCII letters, for the stub collaborators.\<close>

definition lower_char :: "char \<Rightarrow> char" where
  "lower_char c =
     (case map_of (zip ''ABCDEFGHIJKLMNOPQRSTUVWXYZ'' ''abcdefghijklmnopqrstuvwxyz'') c of
        Some d \<Rightarrow> d
      | None \<Rightarrow> c)"

definition ascii_lower :: "string \<Rightarrow> string" where
  "ascii_lower s = map lower_char s"

text \<open>
  The part of Python's table below 256, for the stub collaborators: the letters and
  numbers of Latin-1.
\<close>

definition latin1_alnum :: "nat \<Rightarrow> bool" where
  "latin1_alnum n =
     (n = 170 \<or> n = 178 \<or> n = 179 \<or> n = 181 \<or> n = 185 \<or> n = 186 \<or> n = 188 \<or> n = 189 \<or> n = 190
      \<or> (192 \<le> n \<and> n \<le> 255 \<and> n \<noteq> 215 \<and> n \<noteq> 247))"

fun starts_with :: "string \<Rightarrow> string \<Rightarrow> bool" where
  "starts_with [] s = True"
| "starts_with (p # ps) [] = False"
| "starts_with (p # ps) (c # cs) = (p = c \<and> starts_with ps cs)"

text \<open>\<open>sub in s\<close> of Python.\<close>

fun contains :: "string \<Rightarrow> string \<Rightarrow> bool" where
  "contains sub [] = (sub = [])"
| "contains sub (c # cs) = (starts_with sub (c # cs) \<or> contains sub cs)"

text \<open>
  \<open>(\w+_agent)\<close> at the head of \<open>rest\<close>: the greedy \<open>\w+\<close> first takes every word
  character, then gives them back until \<open>_agent\<close> follows; it keeps at least one.
  \<open>k\<close> is the number of bytes \<open>\w+\<close> currently holds.  Going back byte by byte tries
  the same places as going back character by character, and some more inside a
  character, where the next byte is not the ASCII underscore.
\<close>

fun backtrack :: "nat \<Rightarrow> string \<Rightarrow> string option" where
  "backtrack 0 rest = None"
| "backtrack (Suc k) rest =
     (if starts_with ''_agent'' (drop (Suc k) rest)
      then Some (take (Suc k) rest @ ''_agent'')
      else backtrack k rest)"

definition match_agent :: "(nat \<Rightarrow> bool) \<Rightarrow> string \<Rightarrow> string option" where
  "match_agent alnum rest = backtrack (word_run alnum rest) rest"

text \<open>
  \<open>re.search(r'regenerate:(\w+_agent)', content)\<close>: the leftmost position at which
  the pattern matches; the result is \<open>match.group(1)\<close>.
\<close>

fun re_search :: "(nat \<Rightarrow> bool) \<Rightarrow> string \<Rightarrow> string option" where
  "re_search alnum [] = None"
| "re_search alnum (c # cs) =
     (if starts_with ''regenerate:'' (c # cs)
      then (case match_agent alnum (drop 11 (c # cs)) of
              Some g \<Rightarrow> Some g
            | None \<Rightarrow> re_search alnum cs)
      else re_search alnum cs)"

subsection \<open>The node functions\<close>

text \<open>
  A node returns \<open>Command(goto=..., update=state)\<close>, or raises.  \<open>END\<close> is the
  library's name of the terminal target.
\<close>

datatype command = Command (goto: string) (update: workflow_state)

definition START :: string where
  "START = ''__start__''"

definition END :: string where
  "END = ''__end__''"

text \<open>\<open>state.messages[-1].content\<close>: an empty list has no last element.\<close>

definition last_content :: "message list \<Rightarrow> exn + string" where
  "last_content ms = (if ms = [] then Inl IndexError else Inr (content (last ms)))"

definition router_travel_evaluator :: "env \<Rightarrow> nat \<Rightarrow> workflow_state \<Rightarrow> exn + string" where
  "router_travel_evaluator e t state =
     (case last_content (messages state) of
        Inl x \<Rightarrow> Inl x
      | Inr user_msg \<Rightarrow>
          (case travel_evaluator e t user_msg of
             Inl x \<Rightarrow> Inl x
           | Inr response \<Rightarrow>
               if response = ''TRAVEL'' \<or> response = ''NOT_TRAVEL''
               then Inr response
               else Inl (ValueError (''Invalid travel evaluator output: '' @ response))))"

definition node_query_analyzer :: "env \<Rightarrow> nat \<Rightarrow> workflow_state \<Rightarrow> exn + command" where
  "node_query_analyzer e t state =
     (case last_content (messages state) of
        Inl x \<Rightarrow> Inl x
      | Inr user_msg \<Rightarrow>
          (case query_analyzer e t user_msg of
             Inl x \<Rightarrow> Inl x
           | Inr result \<Rightarrow>
               Inr (Command ''hotel_agent''
                 (state\<lparr>destination := qa_destination result,
                        budget := qa_budget result,
                        native_currency := qa_native_currency result,
                        days := qa_days result,
                        group_size := qa_group_size result,
                        activity_preferences := qa_activity_preferences result,
                        accommodation_type := qa_accommodation_type result,
                        dietary_restrictions := qa_dietary_restrictions result,
                        transportation_preferences := qa_transportation_preferences result\<rparr>))))"

text \<open>
  The \<open>try\<close> of \<open>node_hotel_agent\<close> encloses the parsing only, and its \<open>except\<close>
  names three exception classes; the call of the agent is outside it.
\<close>

definition node_hotel_agent :: "env \<Rightarrow> nat \<Rightarrow> workflow_state \<Rightarrow> exn + command" where
  "node_hotel_agent e t state =
     (case hotel_agent e t state of
        Inl x \<Rightarrow> Inl x
      | Inr raw_content \<Rightarrow>
          (case hotels_of_json e raw_content of
             Inr hs \<Rightarrow> Inr (Command ''weather_agent'' (state\<lparr>hotels := Some hs\<rparr>))
           | Inl x \<Rightarrow>
               if x = JSONDecodeError \<or> x = ValidationError \<or> x = TypeError
               then Inr (Command ''weather_agent'' (state\<lparr>hotels := Some []\<rparr>))
               else Inl x))"

definition node_weather_agent :: "env \<Rightarrow> nat \<Rightarrow> workflow_state \<Rightarrow> exn + command" where
  "node_weather_agent e t state =
     (case weather_agent e t (messages state) of
        Inl x \<Rightarrow> Inl x
      | Inr c \<Rightarrow> Inr (Command ''attractions_agent'' (state\<lparr>weather := Some c\<rparr>)))"

definition node_attractions_agent :: "env \<Rightarrow> nat \<Rightarrow> workflow_state \<Rightarrow> exn + command" where
  "node_attractions_agent e t state =
     (case attractions_agent e t state of
        Inl x \<Rightarrow> Inl x
      | Inr c \<Rightarrow> Inr (Command ''calculator_agent'' (state\<lparr>attractions := Some c\<rparr>)))"

definition node_calculator_agent :: "env \<Rightarrow> nat \<Rightarrow> workflow_state \<Rightarrow> exn + command" where
  "node_calculator_agent e t state =
     (case calculator_agent e t state of
        Inl x \<Rightarrow> Inl x
      | Inr c \<Rightarrow> Inr (Command ''itinerary_agent'' (state\<lparr>calculator_result := Some c\<rparr>)))"

definition node_itinerary_agent :: "env \<Rightarrow> nat \<Rightarrow> workflow_state \<Rightarrow> exn + command" where
  "node_itinerary_agent e t state =
     (case itinerary_builder e t state of
        Inl x \<Rightarrow> Inl x
      | Inr it \<Rightarrow> Inr (Command ''summary_agent'' (state\<lparr>itinerary := Some it\<rparr>)))"

text \<open>\<open>state.attractions or []\<close>: an unset or empty value becomes the empty list, here \<open>None\<close>.\<close>

definition attractions_or_empty :: "string option \<Rightarrow> string option" where
  "attractions_or_empty a = (case a of None \<Rightarrow> None | Some x \<Rightarrow> if x = [] then None else Some x)"

definition summary_args :: "workflow_state \<Rightarrow> summary_request" where
  "summary_args state =
     \<lparr>sr_messages = messages state,
      sr_destination = destination state,
      sr_days = days state,
      sr_attractions = attractions_or_empty (attractions state),
      sr_hotel_info = hotels state,
      sr_weather = weather state,
      sr_itinerary = itinerary state,
      sr_calculator_result = calculator_result state\<rparr>"

text \<open>
  \<open>summary.get('summary') if isinstance(summary, dict) else str(summary)\<close>; \<open>get\<close> of a
  missing key is Python's \<open>None\<close>, which is not a string, and \<open>str(None)\<close> is the text
  \<open>None\<close>.
\<close>

definition summary_content :: "summary_value option \<Rightarrow> py_value" where
  "summary_content sm =
     (case sm of
        None \<Rightarrow> PyStr ''None''
      | Some (SummaryObj x) \<Rightarrow> PyStr x
      | Some (SummaryDict d) \<Rightarrow> (case map_of d ''summary'' of None \<Rightarrow> PyOther | Some v \<Rightarrow> v))"

text \<open>\<open>re.search\<close> and \<open>.lower()\<close> raise TypeError on an argument that is no string.\<close>

definition node_summary_agent :: "env \<Rightarrow> nat \<Rightarrow> workflow_state \<Rightarrow> exn + command" where
  "node_summary_agent e t state =
     (case summary_generator e t (summary_args state) of
        Inl x \<Rightarrow> Inl x
      | Inr sm \<Rightarrow>
          (let state' = state\<lparr>summary := Some sm\<rparr> in
           case summary_content (Some sm) of
             PyOther \<Rightarrow> Inl TypeError
           | PyStr c \<Rightarrow>
               (case re_search (unicode_alnum e) c of
                  Some next_agent \<Rightarrow> Inr (Command next_agent state')
                | None \<Rightarrow>
                    if contains ''final'' (str_lower e c) then Inr (Command END state')
                    else Inr (Command END state'))))"

definition summary_supervisor_router :: "env \<Rightarrow> workflow_state \<Rightarrow> exn + string" where
  "summary_supervisor_router e state =
     (case summary_content (summary state) of
        PyOther \<Rightarrow> Inl TypeError
      | PyStr c \<Rightarrow>
          (case re_search (unicode_alnum e) c of
             Some g \<Rightarrow> Inr g
           | None \<Rightarrow> if contains ''final'' (str_lower e c) then Inr END else Inr END))"

subsection \<open>The graph\<close>

text \<open>
  What \<open>add_node\<close>, \<open>add_edge\<close> and \<open>add_conditional_edges\<close> declare, in the order of
  the source.
\<close>

definition node_table :: "(string \<times> (env \<Rightarrow> nat \<Rightarrow> workflow_state \<Rightarrow> exn + command)) list" where
  "node_table =
     [(''query_analyzer'', node_query_analyzer),
      (''hotel_agent'', node_hotel_agent),
      (''weather_agent'', node_weather_agent),
      (''attractions_agent'', node_attractions_agent),
      (''calculator_agent'', node_calculator_agent),
      (''itinerary_agent'', node_itinerary_agent),
      (''summary_agent'', node_summary_agent)]"

definition start_branches :: "(string \<times> string) list" where
  "start_branches = [(''TRAVEL'', ''query_analyzer''), (''NOT_TRAVEL'', END)]"

definition edges :: "(string \<times> string) list" where
  "edges =
     [(''query_analyzer'', ''hotel_agent''),
      (''hotel_agent'', ''weather_agent''),
      (''weather_agent'', ''attractions_agent''),
      (''attractions_agent'', ''calculator_agent''),
      (''calculator_agent'', ''itinerary_agent''),
      (''itinerary_agent'', ''summary_agent''),
      (''summary_agent'', END)]"

definition summary_branches :: "(string \<times> string) list" where
  "summary_branches =
     [(''attractions_agent'', ''attractions_agent''),
      (''itinerary_agent'', ''itinerary_agent''),
      (''calculator_agent'', ''calculator_agent''),
      (END, END)]"

text \<open>
  The conditional edges that leave a node, each with its router and its branch map.  The
  conditional edge that leaves \<open>START\<close> is taken when a run begins.
\<close>

definition conditional_edges ::
  "(string \<times> ((env \<Rightarrow> workflow_state \<Rightarrow> exn + string) \<times> (string \<times> string) list)) list" where
  "conditional_edges = [(''summary_agent'', (summary_supervisor_router, summary_branches))]"

subsection \<open>Running the graph\<close>

text \<open>
  \<open>app = workflow.compile()\<close> hands the graph to the graph library, whose run loop is
  not part of the sources.  It is taken here as follows.  When a node has returned,
  its destinations are: the \<open>goto\<close> of its Command; the targets of its static edges;
  and, where the node has conditional edges, the entry of the branch map for what
  the router answers on the updated state.  The branch map is a Python dict, so an
  answer without an entry raises KeyError, and the run aborts with it.  \<open>END\<close> is no
  destination.  With no destination left the run is over; with one, that node runs
  next on the updated state.  Two different destinations would run side by side
  and each write every field of the state, which the library refuses
  (InvalidUpdateError); no node of this graph produces them, since the \<open>goto\<close> of
  every node agrees with its edges.  An exception raised in a node or a router aborts
  the run.
\<close>

definition static_targets :: "string \<Rightarrow> string list" where
  "static_targets n = map snd (filter (\<lambda>p. fst p = n) edges)"

definition branch_targets :: "env \<Rightarrow> string \<Rightarrow> workflow_state \<Rightarrow> exn + string list" where
  "branch_targets e n state =
     (case map_of conditional_edges n of
        None \<Rightarrow> Inr []
      | Some (router, branches) \<Rightarrow>
          (case router e state of
             Inl x \<Rightarrow> Inl x
           | Inr r \<Rightarrow>
               (case map_of branches r of
                  None \<Rightarrow> Inl (KeyError r)
                | Some d \<Rightarrow> Inr [d])))"

definition step :: "env \<Rightarrow> nat \<Rightarrow> string \<Rightarrow> workflow_state \<Rightarrow> exn + (string list \<times> workflow_state)" where
  "step e t n state =
     (case map_of node_table n of
        None \<Rightarrow> Inl (KeyError n)
      | Some f \<Rightarrow>
          (case f e t state of
             Inl x \<Rightarrow> Inl x
           | Inr cmd \<Rightarrow>
               (case branch_targets e n (update cmd) of
                  Inl x \<Rightarrow> Inl x
                | Inr bs \<Rightarrow>
                    Inr (remdups (filter (\<lambda>d. d \<noteq> END) (goto cmd # static_targets n @ bs)),
                         update cmd))))"

text \<open>
  The library limits the number of steps of a run (its recursion limit, at least 1);
  workflow.py sets no limit of its own.  Before each step the library first tests
  the limit and only then whether a node is due: when the limit is used up it stops
  the run with its GraphRecursionError, also when no node is due any more.  So a run
  ends in one of three ways: it reaches \<open>END\<close> with a final state, it aborts with
  an exception of a node or router, or it is out of steps, with the nodes then due.
  The first component of a run's result is the trace: the names of the nodes that
  were invoked, in order.  In \<open>run_from e f t n state\<close> the node \<open>n\<close> is due at step
  \<open>t\<close>, and \<open>f\<close> steps are left.
\<close>

datatype outcome =
    Finished workflow_state
  | Aborted exn
  | OutOfSteps "string list" workflow_state

fun run_from :: "env \<Rightarrow> nat \<Rightarrow> nat \<Rightarrow> string \<Rightarrow> workflow_state \<Rightarrow> string list \<times> outcome" where
  "run_from e 0 t n state = ([], OutOfSteps [n] state)"
| "run_from e (Suc k) t n state =
     (case step e t n state of
        Inl x \<Rightarrow> ([n], Aborted x)
      | Inr (ds, state') \<Rightarrow>
          (case ds of
             [] \<Rightarrow> ([n], if k = 0 then OutOfSteps [] state' else Finished state')
           | [d] \<Rightarrow> apfst ((#) n) (run_from e k (Suc t) d state')
           | _ \<Rightarrow> ([n], if k = 0 then OutOfSteps ds state' else Aborted InvalidUpdateError)))"

text \<open>
  The entry: the conditional edge of \<open>START\<close>, whose router is the travel evaluator
  (step 0), then the nodes from step 1 on; \<open>limit\<close> is the library's limit.  A run
  that the router sends to \<open>END\<close> is over under every limit that the library accepts.
\<close>

definition run :: "env \<Rightarrow> nat \<Rightarrow> workflow_state \<Rightarrow> string list \<times> outcome" where
  "run e limit state =
     (case router_travel_evaluator e 0 state of
        Inl x \<Rightarrow> ([], Aborted x)
      | Inr r \<Rightarrow>
          (case map_of start_branches r of
             None \<Rightarrow> ([], Aborted (KeyError r))
           | Some d \<Rightarrow> if d = END then ([], Finished state) else run_from e limit 1 d state))"

subsection \<open>A request and stub collaborators\<close>

text \<open>The request of the source's manual test, and collaborators that answer it.\<close>

definition paris_state :: workflow_state where
  "paris_state =
     \<lparr>messages = [HumanMessage ''I want to go to Paris for 3 days, my budget is 1000 EUR, I like art and culture, my currency is USD''],
      destination = None, budget = None, native_currency = None, days = None,
      group_size = None, activity_preferences = None, accommodation_type = None,
      dietary_restrictions = None, transportation_preferences = None,
      hotels = None, weather = None, attractions = None, calculator_result = None,
      itinerary = None, summary = None\<rparr>"

definition paris_analysis :: query_analysis_result where
  "paris_analysis =
     \<lparr>qa_destination = Some ''Paris'', qa_budget = Some 1000, qa_native_currency = Some ''USD'',
      qa_days = Some 3, qa_group_size = None, qa_activity_preferences = Some ''art and culture'',
      qa_accommodation_type = None, qa_dietary_restrictions = None,
      qa_transportation_preferences = None\<rparr>"

definition paris_hotel :: hotel_info where
  "paris_hotel = \<lparr>name = ''Hotel du Nord'', price_per_night = 120, review_count = 840, rating = 4,
                   url = ''https://example.org/nord''\<rparr>"

definition stub_env :: env where
  "stub_env =
     \<lparr>travel_evaluator = (\<lambda>t m. Inr ''TRAVEL''),
      query_analyzer = (\<lambda>t m. Inr paris_analysis),
      hotel_agent = (\<lambda>t s. Inr ''[{...}]''),
      hotels_of_json = (\<lambda>raw. Inr [paris_hotel]),
      weather_agent = (\<lambda>t ms. Inr ''mild, 18 C''),
      attractions_agent = (\<lambda>t s. Inr ''Louvre; Orsay''),
      calculator_agent = (\<lambda>t s. Inr ''hotel 360, museums 60''),
      itinerary_builder = (\<lambda>t s. Inr ''day 1: Louvre''),
      summary_generator = (\<lambda>t r. Inr (SummaryDict [(''summary'', PyStr ''Final plan: three days in Paris.'')])),
      unicode_alnum = latin1_alnum,
      str_lower = ascii_lower\<rparr>"

text \<open>Variants of the stub collaborators: one that fails, or a summary with a marker.\<close>

definition weather_down_env :: env where
  "weather_down_env = stub_env\<lparr>weather_agent := (\<lambda>t ms. Inl (CollaboratorError ''timeout''))\<rparr>"

definition calculator_down_env :: env where
  "calculator_down_env = stub_env\<lparr>calculator_agent := (\<lambda>t s. Inl (CollaboratorError ''refused''))\<rparr>"

definition regenerating_env :: env where
  "regenerating_env =
     stub_env\<lparr>summary_generator := (\<lambda>t r. Inr (SummaryObj ''Too few sights. regenerate:attractions_agent''))\<rparr>"

definition hotel_marker_env :: env where
  "hotel_marker_env =
     stub_env\<lparr>summary_generator := (\<lambda>t r. Inr (SummaryObj ''Too expensive. regenerate:hotel_agent''))\<rparr>"



text \<open>The state of the stub run once every stage has written its field.\<close>

definition paris_planned :: "summary_value \<Rightarrow> workflow_state" where
  "paris_planned sm =
     paris_state\<lparr>destination := Some ''Paris'', budget := Some 1000, native_currency := Some ''USD'',
       days := Some 3, activity_preferences := Some ''art and culture'',
       hotels := Some [paris_hotel], weather := Some ''mild, 18 C'',
       attractions := Some ''Louvre; Orsay'', calculator_result := Some ''hotel 360, museums 60'',
       itinerary := Some ''day 1: Louvre'', summary := Some sm\<rparr>"

subsection \<open>Notions used to state the properties\<close>

text \<open>The regeneration targets: the stages that the branch map of the summary stage lists.\<close>

definition regeneration_targets :: "string list" where
  "regeneration_targets = filter (\<lambda>d. d \<noteq> END) (map fst summary_branches)"

text \<open>The stages from a regeneration target up to the summary stage, along the static edges.\<close>

definition regeneration_cycle :: "string \<Rightarrow> string list" where
  "regeneration_cycle g =
     (if g = ''attractions_agent''
      then [''attractions_agent'', ''calculator_agent'', ''itinerary_agent'', ''summary_agent'']
      else if g = ''calculator_agent''
      then [''calculator_agent'', ''itinerary_agent'', ''summary_agent'']
      else [''itinerary_agent'', ''summary_agent''])"

text \<open>
  The stage that follows a stage when every summary names \<open>g\<close>: \<open>g\<close> after the summary
  stage, the target of the static edge after any other; the \<open>k\<close> stages from a stage
  on; and the stage reached after \<open>k\<close> of them.
\<close>

definition successor :: "string \<Rightarrow> string \<Rightarrow> string" where
  "successor g n =
     (if n = ''summary_agent'' then g
      else (case static_targets n of [] \<Rightarrow> n | d # ds \<Rightarrow> d))"

fun path :: "string \<Rightarrow> string \<Rightarrow> nat \<Rightarrow> string list" where
  "path g n 0 = []"
| "path g n (Suc k) = n # path g (successor g n) k"

fun walk :: "string \<Rightarrow> string \<Rightarrow> nat \<Rightarrow> string" where
  "walk g n 0 = n"
| "walk g n (Suc k) = walk g (successor g n) k"

text \<open>
  What it is for a run to keep regenerating: of its next \<open>k\<close> stage invocations, from
  the stage \<open>n\<close> at step \<open>t\<close> in the state \<open>s\<close>, each one returns (nothing is raised), and
  each summary stage among them names \<open>g\<close>.  The states are those of the run itself,
  and the collaborators are asked only what this run asks them.
\<close>

fun keeps_regenerating :: "env \<Rightarrow> string \<Rightarrow> nat \<Rightarrow> nat \<Rightarrow> string \<Rightarrow> workflow_state \<Rightarrow> bool" where
  "keeps_regenerating e g 0 t n s = True"
| "keeps_regenerating e g (Suc k) t n s =
     (case map_of node_table n of
        None \<Rightarrow> False
      | Some f \<Rightarrow>
          (case f e t s of
             Inl x \<Rightarrow> False
           | Inr cmd \<Rightarrow>
               (if n = ''summary_agent'' then goto cmd = g else True) \<and>
               keeps_regenerating e g k (Suc t) (successor g n) (update cmd)))"

text \<open>The fields of the state, whether two states agree on one, and the stage that assigns it.\<close>

datatype field =
    Messages | Destination | Budget | NativeCurrency | Days | GroupSize
  | ActivityPreferences | AccommodationType | DietaryRestrictions | TransportationPreferences
  | Hotels | Weather | Attractions | CalculatorResult | Itinerary | Summary

fun unchanged :: "field \<Rightarrow> workflow_state \<Rightarrow> workflow_state \<Rightarrow> bool" where
  "unchanged Messages a b = (messages a = messages b)"
| "unchanged Destination a b = (destination a = destination b)"
| "unchanged Budget a b = (budget a = budget b)"
| "unchanged NativeCurrency a b = (native_currency a = native_currency b)"
| "unchanged Days a b = (days a = days b)"
| "unchanged GroupSize a b = (group_size a = group_size b)"
| "unchanged ActivityPreferences a b = (activity_preferences a = activity_preferences b)"
| "unchanged AccommodationType a b = (accommodation_type a = accommodation_type b)"
| "unchanged DietaryRestrictions a b = (dietary_restrictions a = dietary_restrictions b)"
| "unchanged TransportationPreferences a b =
     (transportation_preferences a = transportation_preferences b)"
| "unchanged Hotels a b = (hotels a = hotels b)"
| "unchanged Weather a b = (weather a = weather b)"
| "unchanged Attractions a b = (attractions a = attractions b)"
| "unchanged CalculatorResult a b = (calculator_result a = calculator_result b)"
| "unchanged Itinerary a b = (itinerary a = itinerary b)"
| "unchanged Summary a b = (summary a = summary b)"

fun owner :: "field \<Rightarrow> string option" where
  "owner Messages = None"
| "owner Hotels = Some ''hotel_agent''"
| "owner Weather = Some ''weather_agent''"
| "owner Attractions = Some ''attractions_agent''"
| "owner CalculatorResult = Some ''calculator_agent''"
| "owner Itinerary = Some ''itinerary_agent''"
| "owner Summary = Some ''summary_agent''"
| "owner _ = Some ''query_analyzer''"

section \<open>Properties\<close>

subsection \<open>How each node steps\<close>

lemma node_lookup:
  "map_of node_table ''query_analyzer'' = Some node_query_analyzer"
  "map_of node_table ''hotel_agent'' = Some node_hotel_agent"
  "map_of node_table ''weather_agent'' = Some node_weather_agent"
  "map_of node_table ''attractions_agent'' = Some node_attractions_agent"
  "map_of node_table ''calculator_agent'' = Some node_calculator_agent"
  "map_of node_table ''itinerary_agent'' = Some node_itinerary_agent"
  "map_of node_table ''summary_agent'' = Some node_summary_agent"
  by (simp_all add: node_table_def)

lemma static_lookup:
  "static_targets ''query_analyzer'' = [''hotel_agent'']"
  "static_targets ''hotel_agent'' = [''weather_agent'']"
  "static_targets ''weather_agent'' = [''attractions_agent'']"
  "static_targets ''attractions_agent'' = [''calculator_agent'']"
  "static_targets ''calculator_agent'' = [''itinerary_agent'']"
  "static_targets ''itinerary_agent'' = [''summary_agent'']"
  "static_targets ''summary_agent'' = [END]"
  by (simp_all add: static_targets_def edges_def)

lemma branch_none:
  "n \<noteq> ''summary_agent'' \<Longrightarrow> branch_targets e n s = Inr []"
  by (simp add: branch_targets_def conditional_edges_def)

lemma goto_fixed:
  "node_query_analyzer e t s = Inr cmd \<Longrightarrow> goto cmd = ''hotel_agent''"
  "node_hotel_agent e t s = Inr cmd \<Longrightarrow> goto cmd = ''weather_agent''"
  "node_weather_agent e t s = Inr cmd \<Longrightarrow> goto cmd = ''attractions_agent''"
  "node_attractions_agent e t s = Inr cmd \<Longrightarrow> goto cmd = ''calculator_agent''"
  "node_calculator_agent e t s = Inr cmd \<Longrightarrow> goto cmd = ''itinerary_agent''"
  "node_itinerary_agent e t s = Inr cmd \<Longrightarrow> goto cmd = ''summary_agent''"
  by (auto simp: node_query_analyzer_def node_hotel_agent_def node_weather_agent_def
      node_attractions_agent_def node_calculator_agent_def node_itinerary_agent_def
      split: sum.splits if_splits)

lemma step_fixed:
  assumes "map_of node_table n = Some f" and "n \<noteq> ''summary_agent''"
    and "static_targets n = [d]" and "d \<noteq> END"
    and "\<And>cmd. f e t s = Inr cmd \<Longrightarrow> goto cmd = d"
  shows "step e t n s = (case f e t s of Inl x \<Rightarrow> Inl x | Inr cmd \<Rightarrow> Inr ([d], update cmd))"
  using assms by (simp add: step_def branch_none split: sum.splits)

lemma step_query_analyzer:
  "step e t ''query_analyzer'' s =
     (case node_query_analyzer e t s of Inl x \<Rightarrow> Inl x | Inr cmd \<Rightarrow> Inr ([''hotel_agent''], update cmd))"
  by (rule step_fixed) (simp_all add: node_lookup static_lookup goto_fixed END_def)

lemma step_hotel_agent:
  "step e t ''hotel_agent'' s =
     (case node_hotel_agent e t s of Inl x \<Rightarrow> Inl x | Inr cmd \<Rightarrow> Inr ([''weather_agent''], update cmd))"
  by (rule step_fixed) (simp_all add: node_lookup static_lookup goto_fixed END_def)

lemma step_weather_agent:
  "step e t ''weather_agent'' s =
     (case node_weather_agent e t s of Inl x \<Rightarrow> Inl x | Inr cmd \<Rightarrow> Inr ([''attractions_agent''], update cmd))"
  by (rule step_fixed) (simp_all add: node_lookup static_lookup goto_fixed END_def)

lemma step_attractions_agent:
  "step e t ''attractions_agent'' s =
     (case node_attractions_agent e t s of Inl x \<Rightarrow> Inl x | Inr cmd \<Rightarrow> Inr ([''calculator_agent''], update cmd))"
  by (rule step_fixed) (simp_all add: node_lookup static_lookup goto_fixed END_def)

lemma step_calculator_agent:
  "step e t ''calculator_agent'' s =
     (case node_calculator_agent e t s of Inl x \<Rightarrow> Inl x | Inr cmd \<Rightarrow> Inr ([''itinerary_agent''], update cmd))"
  by (rule step_fixed) (simp_all add: node_lookup static_lookup goto_fixed END_def)

lemma step_itinerary_agent:
  "step e t ''itinerary_agent'' s =
     (case node_itinerary_agent e t s of Inl x \<Rightarrow> Inl x | Inr cmd \<Rightarrow> Inr ([''summary_agent''], update cmd))"
  by (rule step_fixed) (simp_all add: node_lookup static_lookup goto_fixed END_def)

text \<open>A match of the pattern ends in \<open>_agent\<close>, so it is never \<open>END\<close>.\<close>

lemma backtrack_suffix:
  "backtrack k rest = Some g \<Longrightarrow> \<exists>w. g = w @ ''_agent''"
  by (induction k) (auto split: if_splits)

lemma re_search_suffix:
  "re_search alnum c = Some g \<Longrightarrow> \<exists>w. g = w @ ''_agent''"
proof (induction c)
  case Nil
  then show ?case by simp
next
  case (Cons a c)
  then show ?case
    by (auto simp: match_agent_def split: if_splits option.splits dest: backtrack_suffix)
qed

lemma re_search_not_END: "re_search alnum c = Some g \<Longrightarrow> g \<noteq> END"
proof
  assume a: "re_search alnum c = Some g" and b: "g = END"
  from a obtain w where "g = w @ ''_agent''" using re_search_suffix by blast
  with b have "last (w @ ''_agent'') = last ''__end__''" by (simp add: END_def)
  then show False by simp
qed

lemma summary_branches_lookup:
  "map_of summary_branches r =
     (if r = ''attractions_agent'' \<or> r = ''itinerary_agent'' \<or> r = ''calculator_agent'' \<or> r = END
      then Some r else None)"
  by (simp add: summary_branches_def)

lemma router_after_summary:
  "node_summary_agent e t s = Inr cmd \<Longrightarrow> summary_supervisor_router e (update cmd) = Inr (goto cmd)"
  by (auto simp: node_summary_agent_def summary_supervisor_router_def Let_def
      split: sum.splits py_value.splits option.splits)

lemma step_summary_agent:
  "step e t ''summary_agent'' s =
     (case node_summary_agent e t s of
        Inl x \<Rightarrow> Inl x
      | Inr cmd \<Rightarrow>
          if goto cmd = END then Inr ([], update cmd)
          else if goto cmd = ''attractions_agent'' \<or> goto cmd = ''itinerary_agent''
                  \<or> goto cmd = ''calculator_agent''
          then Inr ([goto cmd], update cmd)
          else Inl (KeyError (goto cmd)))"
  by (auto simp: step_def node_lookup static_lookup branch_targets_def conditional_edges_def
      router_after_summary summary_branches_lookup split: sum.splits)

lemma regeneration_targets_eq:
  "regeneration_targets = [''attractions_agent'', ''itinerary_agent'', ''calculator_agent'']"
  by (simp add: regeneration_targets_def summary_branches_def END_def)

lemma run_from_step_one:
  "step e t n s = Inr ([d], s') \<Longrightarrow>
   run_from e (Suc k) t n s = apfst ((#) n) (run_from e k (Suc t) d s')"
  by simp

lemma run_from_step_abort:
  "step e t n s = Inl x \<Longrightarrow> run_from e (Suc k) t n s = ([n], Aborted x)"
  by simp

lemma run_from_step_end:
  "step e t n s = Inr ([], s') \<Longrightarrow> run_from e (Suc (Suc k)) t n s = ([n], Finished s')"
  by simp

lemma run_from_step_limit:
  "step e t n s = Inr ([], s') \<Longrightarrow> run_from e (Suc 0) t n s = ([n], OutOfSteps [] s')"
  by simp

lemma summary_step_marker:
  assumes "summary_generator e t (summary_args s) = Inr sm"
    and "summary_content (Some sm) = PyStr c" and "re_search (unicode_alnum e) c = Some g"
  shows "step e t ''summary_agent'' s =
           (if g \<in> set regeneration_targets then Inr ([g], s\<lparr>summary := Some sm\<rparr>)
            else Inl (KeyError g))"
proof -
  have "node_summary_agent e t s = Inr (Command g (s\<lparr>summary := Some sm\<rparr>))"
    using assms by (simp add: node_summary_agent_def)
  moreover have "g \<noteq> END" using assms(3) by (rule re_search_not_END)
  ultimately show ?thesis
    by (simp add: step_summary_agent regeneration_targets_eq)
qed

lemma summary_step_no_marker:
  assumes "summary_generator e t (summary_args s) = Inr sm"
    and "summary_content (Some sm) = PyStr c" and "re_search (unicode_alnum e) c = None"
  shows "step e t ''summary_agent'' s = Inr ([], s\<lparr>summary := Some sm\<rparr>)"
proof -
  have "node_summary_agent e t s = Inr (Command END (s\<lparr>summary := Some sm\<rparr>))"
    using assms by (simp add: node_summary_agent_def)
  then show ?thesis by (simp add: step_summary_agent)
qed

subsection \<open>Stages that advance, stages that raise\<close>

lemma advance_query_analyzer:
  assumes "messages s \<noteq> []" and "query_analyzer e t (content (last (messages s))) = Inr r"
  shows "\<exists>s'. step e t ''query_analyzer'' s = Inr ([''hotel_agent''], s') \<and> messages s' = messages s"
  using assms by (simp add: step_query_analyzer node_query_analyzer_def last_content_def)

lemma advance_hotel_agent:
  assumes "hotel_agent e t s = Inr raw"
    and "\<And>x. hotels_of_json e raw = Inl x \<Longrightarrow>
           x = JSONDecodeError \<or> x = ValidationError \<or> x = TypeError"
  shows "\<exists>s'. step e t ''hotel_agent'' s = Inr ([''weather_agent''], s')"
  using assms by (auto simp: step_hotel_agent node_hotel_agent_def split: sum.splits)

lemma advance_weather_agent:
  assumes "weather_agent e t (messages s) = Inr c"
  shows "step e t ''weather_agent'' s = Inr ([''attractions_agent''], s\<lparr>weather := Some c\<rparr>)"
  using assms by (simp add: step_weather_agent node_weather_agent_def)

lemma advance_attractions_agent:
  assumes "attractions_agent e t s = Inr c"
  shows "step e t ''attractions_agent'' s = Inr ([''calculator_agent''], s\<lparr>attractions := Some c\<rparr>)"
  using assms by (simp add: step_attractions_agent node_attractions_agent_def)

lemma advance_calculator_agent:
  assumes "calculator_agent e t s = Inr c"
  shows "step e t ''calculator_agent'' s = Inr ([''itinerary_agent''], s\<lparr>calculator_result := Some c\<rparr>)"
  using assms by (simp add: step_calculator_agent node_calculator_agent_def)

lemma advance_itinerary_agent:
  assumes "itinerary_builder e t s = Inr c"
  shows "step e t ''itinerary_agent'' s = Inr ([''summary_agent''], s\<lparr>itinerary := Some c\<rparr>)"
  using assms by (simp add: step_itinerary_agent node_itinerary_agent_def)

lemma raise_hotel_agent:
  "hotel_agent e t s = Inl x \<Longrightarrow> step e t ''hotel_agent'' s = Inl x"
  by (simp add: step_hotel_agent node_hotel_agent_def)

lemma raise_weather_agent:
  "weather_agent e t (messages s) = Inl x \<Longrightarrow> step e t ''weather_agent'' s = Inl x"
  by (simp add: step_weather_agent node_weather_agent_def)

lemma raise_attractions_agent:
  "attractions_agent e t s = Inl x \<Longrightarrow> step e t ''attractions_agent'' s = Inl x"
  by (simp add: step_attractions_agent node_attractions_agent_def)

lemma raise_calculator_agent:
  "calculator_agent e t s = Inl x \<Longrightarrow> step e t ''calculator_agent'' s = Inl x"
  by (simp add: step_calculator_agent node_calculator_agent_def)

lemma run_enters:
  assumes "router_travel_evaluator e 0 s = Inr ''TRAVEL''"
  shows "run e limit s = run_from e limit 1 ''query_analyzer'' s"
  using assms by (simp add: run_def start_branches_def END_def)

lemma gate_answers_travel:
  assumes "messages s \<noteq> []"
    and "travel_evaluator e 0 (content (last (messages s))) = Inr ''TRAVEL''"
  shows "router_travel_evaluator e 0 s = Inr ''TRAVEL''"
  using assms by (simp add: router_travel_evaluator_def last_content_def)


subsection \<open>Every node of the table\<close>

lemma node_table_cases:
  assumes "map_of node_table n = Some f"
  shows "(n = ''query_analyzer'' \<and> f = node_query_analyzer) \<or>
         (n = ''hotel_agent'' \<and> f = node_hotel_agent) \<or>
         (n = ''weather_agent'' \<and> f = node_weather_agent) \<or>
         (n = ''attractions_agent'' \<and> f = node_attractions_agent) \<or>
         (n = ''calculator_agent'' \<and> f = node_calculator_agent) \<or>
         (n = ''itinerary_agent'' \<and> f = node_itinerary_agent) \<or>
         (n = ''summary_agent'' \<and> f = node_summary_agent)"
  using assms by (auto simp: node_table_def split: if_splits)

lemma frame_query_analyzer:
  "node_query_analyzer e t s = Inr cmd \<Longrightarrow> \<not> unchanged fld s (update cmd) \<Longrightarrow>
   owner fld = Some ''query_analyzer''"
  by (cases fld) (auto simp: node_query_analyzer_def split: sum.splits)

lemma frame_hotel_agent:
  "node_hotel_agent e t s = Inr cmd \<Longrightarrow> \<not> unchanged fld s (update cmd) \<Longrightarrow>
   owner fld = Some ''hotel_agent''"
  by (cases fld) (auto simp: node_hotel_agent_def split: sum.splits if_splits)

lemma frame_weather_agent:
  "node_weather_agent e t s = Inr cmd \<Longrightarrow> \<not> unchanged fld s (update cmd) \<Longrightarrow>
   owner fld = Some ''weather_agent''"
  by (cases fld) (auto simp: node_weather_agent_def split: sum.splits)

lemma frame_attractions_agent:
  "node_attractions_agent e t s = Inr cmd \<Longrightarrow> \<not> unchanged fld s (update cmd) \<Longrightarrow>
   owner fld = Some ''attractions_agent''"
  by (cases fld) (auto simp: node_attractions_agent_def split: sum.splits)

lemma frame_calculator_agent:
  "node_calculator_agent e t s = Inr cmd \<Longrightarrow> \<not> unchanged fld s (update cmd) \<Longrightarrow>
   owner fld = Some ''calculator_agent''"
  by (cases fld) (auto simp: node_calculator_agent_def split: sum.splits)

lemma frame_itinerary_agent:
  "node_itinerary_agent e t s = Inr cmd \<Longrightarrow> \<not> unchanged fld s (update cmd) \<Longrightarrow>
   owner fld = Some ''itinerary_agent''"
  by (cases fld) (auto simp: node_itinerary_agent_def split: sum.splits)

lemma frame_summary_agent:
  "node_summary_agent e t s = Inr cmd \<Longrightarrow> \<not> unchanged fld s (update cmd) \<Longrightarrow>
   owner fld = Some ''summary_agent''"
  by (cases fld)
     (auto simp: node_summary_agent_def Let_def split: sum.splits py_value.splits option.splits)

lemma step_at_most_one_destination:
  assumes "step e t n s = Inr (ds, s')"
  shows "length ds \<le> 1"
proof -
  from assms obtain f where f: "map_of node_table n = Some f"
    by (auto simp: step_def split: option.splits)
  from node_table_cases [OF f] assms show ?thesis
    by (elim disjE conjE)
       (auto simp: step_query_analyzer step_hotel_agent step_weather_agent step_attractions_agent
          step_calculator_agent step_itinerary_agent step_summary_agent
          split: sum.splits if_splits)
qed

subsection \<open>A run that keeps regenerating\<close>

lemma successor_simps:
  "successor g ''query_analyzer'' = ''hotel_agent''"
  "successor g ''hotel_agent'' = ''weather_agent''"
  "successor g ''weather_agent'' = ''attractions_agent''"
  "successor g ''attractions_agent'' = ''calculator_agent''"
  "successor g ''calculator_agent'' = ''itinerary_agent''"
  "successor g ''itinerary_agent'' = ''summary_agent''"
  "successor g ''summary_agent'' = g"
  by (simp_all add: successor_def static_lookup)

lemma regenerating_step:
  assumes kr: "keeps_regenerating e g (Suc k) t n s"
    and g: "g \<in> set regeneration_targets"
  shows "\<exists>s'. step e t n s = Inr ([successor g n], s') \<and>
           keeps_regenerating e g k (Suc t) (successor g n) s'"
proof -
  from kr obtain f cmd where f: "map_of node_table n = Some f"
    and r: "f e t s = Inr cmd"
    and m: "n = ''summary_agent'' \<longrightarrow> goto cmd = g"
    and rest: "keeps_regenerating e g k (Suc t) (successor g n) (update cmd)"
    by (auto split: option.splits sum.splits if_splits)
  have "step e t n s = Inr ([successor g n], update cmd)"
    using node_table_cases [OF f]
  proof (elim disjE conjE)
    assume "n = ''query_analyzer''" "f = node_query_analyzer"
    with r show ?thesis by (simp add: step_query_analyzer successor_simps)
  next
    assume "n = ''hotel_agent''" "f = node_hotel_agent"
    with r show ?thesis by (simp add: step_hotel_agent successor_simps)
  next
    assume "n = ''weather_agent''" "f = node_weather_agent"
    with r show ?thesis by (simp add: step_weather_agent successor_simps)
  next
    assume "n = ''attractions_agent''" "f = node_attractions_agent"
    with r show ?thesis by (simp add: step_attractions_agent successor_simps)
  next
    assume "n = ''calculator_agent''" "f = node_calculator_agent"
    with r show ?thesis by (simp add: step_calculator_agent successor_simps)
  next
    assume "n = ''itinerary_agent''" "f = node_itinerary_agent"
    with r show ?thesis by (simp add: step_itinerary_agent successor_simps)
  next
    assume n: "n = ''summary_agent''" and "f = node_summary_agent"
    with r have r': "node_summary_agent e t s = Inr cmd" by simp
    from m n have gc: "goto cmd = g" by simp
    from g have "g = ''attractions_agent'' \<or> g = ''itinerary_agent'' \<or> g = ''calculator_agent''"
      by (simp add: regeneration_targets_eq)
    then have "step e t ''summary_agent'' s = Inr ([g], update cmd)"
      by (elim disjE) (simp_all add: step_summary_agent r' gc END_def)
    with n show ?thesis by (simp add: successor_simps)
  qed
  with rest show ?thesis by blast
qed

lemma regenerating_run:
  assumes "keeps_regenerating e g k t n s" and g: "g \<in> set regeneration_targets"
  shows "\<exists>st. run_from e k t n s = (path g n k, OutOfSteps [walk g n k] st)"
  using assms(1)
proof (induction k arbitrary: t n s)
  case 0
  then show ?case by simp
next
  case (Suc k)
  from regenerating_step [OF Suc.prems g] obtain s'
    where st: "step e t n s = Inr ([successor g n], s')"
    and kr: "keeps_regenerating e g k (Suc t) (successor g n) s'"
    by (elim exE conjE)
  from Suc.IH [OF kr] obtain st' where
    "run_from e k (Suc t) (successor g n) s' =
       (path g (successor g n) k, OutOfSteps [walk g (successor g n) k] st')" ..
  then show ?case by (simp add: st)
qed

lemma path_length: "length (path g n k) = k"
  by (induction k arbitrary: n) simp_all

lemma path_add: "path g n (a + b) = path g n a @ path g (walk g n a) b"
  by (induction a arbitrary: n) simp_all

lemma walk_add: "walk g n (a + b) = walk g (walk g n a) b"
  by (induction a arbitrary: n) simp_all

lemma first_pass:
  "path g ''query_analyzer'' 7 =
     [''query_analyzer'', ''hotel_agent'', ''weather_agent'', ''attractions_agent'',
      ''calculator_agent'', ''itinerary_agent'', ''summary_agent'']"
  "walk g ''query_analyzer'' 7 = g"
  by (simp_all add: eval_nat_numeral successor_simps)

lemma one_round:
  assumes "g \<in> set regeneration_targets"
  shows "path g g (length (regeneration_cycle g)) = regeneration_cycle g \<and>
         walk g g (length (regeneration_cycle g)) = g"
proof -
  from assms have "g = ''attractions_agent'' \<or> g = ''itinerary_agent'' \<or> g = ''calculator_agent''"
    by (simp add: regeneration_targets_eq)
  then show ?thesis
    by (elim disjE) (simp_all add: regeneration_cycle_def eval_nat_numeral successor_simps)
qed

lemma rounds:
  assumes g: "g \<in> set regeneration_targets"
  shows "path g g (length (regeneration_cycle g) * m) = concat (replicate m (regeneration_cycle g)) \<and>
         walk g g (length (regeneration_cycle g) * m) = g"
proof (induction m)
  case 0
  then show ?case by simp
next
  case (Suc m)
  have "length (regeneration_cycle g) * Suc m =
      length (regeneration_cycle g) + length (regeneration_cycle g) * m" by simp
  then show ?case
    using one_round [OF g] Suc.IH by (simp add: path_add walk_add)
qed

lemma first_pass_then_rounds:
  assumes g: "g \<in> set regeneration_targets"
  shows "path g ''query_analyzer'' (7 + length (regeneration_cycle g) * m) =
           [''query_analyzer'', ''hotel_agent'', ''weather_agent'', ''attractions_agent'',
            ''calculator_agent'', ''itinerary_agent'', ''summary_agent'']
           @ concat (replicate m (regeneration_cycle g)) \<and>
         walk g ''query_analyzer'' (7 + length (regeneration_cycle g) * m) = g"
  using rounds [OF g, of m] by (simp add: path_add walk_add first_pass)

subsection \<open>The stub collaborators\<close>

lemmas pattern_defs = match_agent_def is_word_char_def ascii_word_def utf8_width_def

lemma marker_attractions:
  "re_search latin1_alnum ''Too few sights. regenerate:attractions_agent'' = Some ''attractions_agent''"
  by (simp add: pattern_defs)

lemma marker_hotel:
  "re_search latin1_alnum ''Too expensive. regenerate:hotel_agent'' = Some ''hotel_agent''"
  by (simp add: pattern_defs)




lemma no_marker_final:
  "re_search alnum ''Final plan: three days in Paris.'' = None"
  by simp

lemma paris_request:
  "messages paris_state \<noteq> []"
  "content (last (messages paris_state)) =
     ''I want to go to Paris for 3 days, my budget is 1000 EUR, I like art and culture, my currency is USD''"
  by (simp_all add: paris_state_def)

lemmas step_simps = step_query_analyzer step_hotel_agent step_weather_agent step_attractions_agent
  step_calculator_agent step_itinerary_agent

lemmas node_defs = node_query_analyzer_def node_hotel_agent_def node_weather_agent_def
  node_attractions_agent_def node_calculator_agent_def node_itinerary_agent_def

lemmas entry_defs = run_def router_travel_evaluator_def last_content_def start_branches_def

lemmas summary_eval = step_summary_agent node_summary_agent_def summary_content_def summary_args_def
  attractions_or_empty_def

lemma regenerating_env_summary:
  "node_summary_agent regenerating_env t s =
     Inr (Command ''attractions_agent''
       (s\<lparr>summary := Some (SummaryObj ''Too few sights. regenerate:attractions_agent'')\<rparr>))"
  using marker_attractions
  by (simp add: node_summary_agent_def summary_content_def regenerating_env_def stub_env_def
      del: re_search.simps)

lemma regenerating_env_nodes:
  "node_hotel_agent regenerating_env t s =
     Inr (Command ''weather_agent'' (s\<lparr>hotels := Some [paris_hotel]\<rparr>))"
  "node_weather_agent regenerating_env t s =
     Inr (Command ''attractions_agent'' (s\<lparr>weather := Some ''mild, 18 C''\<rparr>))"
  "node_attractions_agent regenerating_env t s =
     Inr (Command ''calculator_agent'' (s\<lparr>attractions := Some ''Louvre; Orsay''\<rparr>))"
  "node_calculator_agent regenerating_env t s =
     Inr (Command ''itinerary_agent'' (s\<lparr>calculator_result := Some ''hotel 360, museums 60''\<rparr>))"
  "node_itinerary_agent regenerating_env t s =
     Inr (Command ''summary_agent'' (s\<lparr>itinerary := Some ''day 1: Louvre''\<rparr>))"
  by (simp_all add: node_defs regenerating_env_def stub_env_def)

lemma regenerating_env_keeps_regenerating:
  assumes "n = ''hotel_agent'' \<or> n = ''weather_agent'' \<or> n = ''attractions_agent'' \<or>
           n = ''calculator_agent'' \<or> n = ''itinerary_agent'' \<or> n = ''summary_agent''"
  shows "keeps_regenerating regenerating_env ''attractions_agent'' k t n s"
  using assms
proof (induction k arbitrary: t n s)
  case 0
  then show ?case by simp
next
  case (Suc k)
  from Suc.prems show ?case
    by (elim disjE)
       (simp_all add: node_lookup successor_simps regenerating_env_nodes
          regenerating_env_summary Suc.IH)
qed

lemma regenerating_env_from_start:
  "keeps_regenerating regenerating_env ''attractions_agent'' k 1 ''query_analyzer'' paris_state"
proof (cases k)
  case 0
  then show ?thesis by simp
next
  case (Suc j)
  have "query_analyzer regenerating_env 1 m = Inr paris_analysis" for m
    by (simp add: regenerating_env_def stub_env_def)
  then obtain cmd where "node_query_analyzer regenerating_env 1 paris_state = Inr cmd"
    by (simp add: node_query_analyzer_def last_content_def paris_request)
  then show ?thesis
    by (simp add: Suc node_lookup successor_simps regenerating_env_keeps_regenerating)
qed

text \<open>
  The limit counts one step more than the stages: the seven stages of the stub run use
  up a limit of 7, and the run is stopped although no stage is due.
\<close>

lemma stub_run_needs_limit_8:
  "run stub_env 7 paris_state =
     ([''query_analyzer'', ''hotel_agent'', ''weather_agent'', ''attractions_agent'',
       ''calculator_agent'', ''itinerary_agent'', ''summary_agent''],
      OutOfSteps []
        (paris_planned (SummaryDict [(''summary'', PyStr ''Final plan: three days in Paris.'')])))"
  using no_marker_final [of latin1_alnum]
  by (simp add: entry_defs END_def numeral_eq_Suc step_simps node_defs summary_eval
      stub_env_def paris_state_def paris_planned_def paris_analysis_def del: re_search.simps)

section \<open>The claims\<close>

subsection \<open>The travel evaluator\<close>

text \<open>
  C5: when the travel evaluator answers anything but \<open>TRAVEL\<close> or \<open>NOT_TRAVEL\<close> (the
  empty string included), the run aborts with the ValueError that
  \<open>router_travel_evaluator\<close> raises; no node has been invoked and no route was chosen.
\<close>

theorem gate_unrecognized_label_aborts:
  assumes "messages s \<noteq> []"
    and "travel_evaluator e 0 (content (last (messages s))) = Inr r"
    and "r \<noteq> ''TRAVEL''" and "r \<noteq> ''NOT_TRAVEL''"
  shows "run e fuel s = ([], Aborted (ValueError (''Invalid travel evaluator output: '' @ r)))"
  using assms by (simp add: run_def router_travel_evaluator_def last_content_def)

text \<open>The empty answer, on the request of the manual test.\<close>

theorem gate_unrecognized_label_aborts_witness:
  "run (stub_env\<lparr>travel_evaluator := (\<lambda>t m. Inr [])\<rparr>) 25 paris_state =
     ([], Aborted (ValueError ''Invalid travel evaluator output: ''))"
  using gate_unrecognized_label_aborts
    [of paris_state "stub_env\<lparr>travel_evaluator := (\<lambda>t m. Inr [])\<rparr>" "[]" 25]
  by (simp add: paris_state_def)

text \<open>
  C6: when the travel evaluator answers \<open>NOT_TRAVEL\<close>, the run is over at once: no
  node is invoked (the trace is empty, so no collaborator of a stage is called) and the
  final state is the initial one, so every field that was unset still is.
\<close>

theorem out_of_scope_ends_at_once:
  assumes "messages s \<noteq> []"
    and "travel_evaluator e 0 (content (last (messages s))) = Inr ''NOT_TRAVEL''"
  shows "run e fuel s = ([], Finished s)"
  using assms by (simp add: run_def router_travel_evaluator_def last_content_def start_branches_def)

theorem out_of_scope_ends_at_once_witness:
  "run (stub_env\<lparr>travel_evaluator := (\<lambda>t m. Inr ''NOT_TRAVEL'')\<rparr>) 25 paris_state =
     ([], Finished paris_state)"
  using out_of_scope_ends_at_once
    [of paris_state "stub_env\<lparr>travel_evaluator := (\<lambda>t m. Inr ''NOT_TRAVEL'')\<rparr>" 25]
  by (simp add: paris_state_def)

subsection \<open>The extraction stage\<close>

text \<open>
  C7: \<open>node_query_analyzer\<close> calls the analyzer outside any \<open>try\<close>.  When the analyzer
  raises (a parse or validation failure, or anything else), the node raises the same
  exception, and the run that had passed the travel evaluator aborts with it: the
  trace holds the query analyzer alone, so no later stage runs on unset parameters.
\<close>

theorem extraction_failure_is_fatal:
  assumes "messages s \<noteq> []"
    and "travel_evaluator e 0 (content (last (messages s))) = Inr ''TRAVEL''"
    and "query_analyzer e 1 (content (last (messages s))) = Inl x"
  shows "node_query_analyzer e 1 s = Inl x \<and>
         run e (Suc k) s = ([''query_analyzer''], Aborted x)"
proof -
  have n: "node_query_analyzer e 1 s = Inl x"
    using assms by (simp add: node_query_analyzer_def last_content_def)
  then have "step e 1 ''query_analyzer'' s = Inl x"
    by (simp add: step_query_analyzer)
  then have "run_from e (Suc k) 1 ''query_analyzer'' s = ([''query_analyzer''], Aborted x)"
    by (rule run_from_step_abort)
  moreover have "router_travel_evaluator e 0 s = Inr ''TRAVEL''"
    using assms by (simp add: router_travel_evaluator_def last_content_def)
  ultimately have "run e (Suc k) s = ([''query_analyzer''], Aborted x)"
    by (simp add: run_def start_branches_def END_def)
  with n show ?thesis by simp
qed

theorem extraction_failure_is_fatal_witness:
  "run (stub_env\<lparr>query_analyzer := (\<lambda>t m. Inl ValidationError)\<rparr>) 25 paris_state =
     ([''query_analyzer''], Aborted ValidationError)"
  using extraction_failure_is_fatal
    [of paris_state "stub_env\<lparr>query_analyzer := (\<lambda>t m. Inl ValidationError)\<rparr>" ValidationError 24]
  by (simp add: paris_state_def stub_env_def)

subsection \<open>The hotel stage\<close>

text \<open>
  C10: when the hotel agent has answered and the answer fails to parse with one of
  the three exceptions that the \<open>except\<close> clause names, \<open>node_hotel_agent\<close> returns the
  state with \<open>hotels\<close> set to the empty list and nothing else changed, and goes to the
  weather stage; the run loop takes the weather stage next.  With collaborators whose
  answer parses (\<open>e'\<close>), the same node on the same state returns the state with \<open>hotels\<close>
  set to the parsed list and goes to the weather stage as well: the two results differ
  in the value of \<open>hotels\<close> only.
\<close>

theorem hotel_parse_failure_frame:
  assumes "hotel_agent e t s = Inr raw"
    and "hotels_of_json e raw = Inl x"
    and "x = JSONDecodeError \<or> x = ValidationError \<or> x = TypeError"
    and "hotel_agent e' t s = Inr raw'"
    and "hotels_of_json e' raw' = Inr hs"
  shows "node_hotel_agent e t s = Inr (Command ''weather_agent'' (s\<lparr>hotels := Some []\<rparr>)) \<and>
         step e t ''hotel_agent'' s = Inr ([''weather_agent''], s\<lparr>hotels := Some []\<rparr>) \<and>
         node_hotel_agent e' t s = Inr (Command ''weather_agent'' (s\<lparr>hotels := Some hs\<rparr>)) \<and>
         step e' t ''hotel_agent'' s = Inr ([''weather_agent''], s\<lparr>hotels := Some hs\<rparr>)"
  using assms by (auto simp: step_hotel_agent node_hotel_agent_def)

theorem hotel_parse_failure_frame_witness:
  "node_hotel_agent (stub_env\<lparr>hotels_of_json := (\<lambda>raw. Inl JSONDecodeError)\<rparr>) 2 paris_state =
     Inr (Command ''weather_agent'' (paris_state\<lparr>hotels := Some []\<rparr>)) \<and>
   node_hotel_agent stub_env 2 paris_state =
     Inr (Command ''weather_agent'' (paris_state\<lparr>hotels := Some [paris_hotel]\<rparr>))"
  using hotel_parse_failure_frame
    [of "stub_env\<lparr>hotels_of_json := (\<lambda>raw. Inl JSONDecodeError)\<rparr>" 2 paris_state "''[{...}]''"
        JSONDecodeError stub_env "''[{...}]''" "[paris_hotel]"]
  by (simp add: stub_env_def)

subsection \<open>Failures in the domain stages\<close>

text \<open>
  C2, as the code has it.  The hotel stage catches a parse failure of the agent's
  answer (JSONDecodeError, ValidationError, TypeError), writes the empty list and
  advances to the weather stage.  The weather, attractions and calculator stages do
  not parse anything: whatever their agent answers is stored in the stage's field, and
  the stage advances.  No stage catches an exception of its agent: when the agent of
  the hotel, weather, attractions or calculator stage raises, nothing is written and
  the run aborts with that exception.
\<close>

theorem domain_stage_failure_semantics:
  "(hotel_agent e t s = Inr raw \<and> hotels_of_json e raw = Inl x \<and>
      (x = JSONDecodeError \<or> x = ValidationError \<or> x = TypeError)
      \<longrightarrow> step e t ''hotel_agent'' s = Inr ([''weather_agent''], s\<lparr>hotels := Some []\<rparr>)) \<and>
   (weather_agent e t (messages s) = Inr c
      \<longrightarrow> step e t ''weather_agent'' s = Inr ([''attractions_agent''], s\<lparr>weather := Some c\<rparr>)) \<and>
   (attractions_agent e t s = Inr c
      \<longrightarrow> step e t ''attractions_agent'' s = Inr ([''calculator_agent''], s\<lparr>attractions := Some c\<rparr>)) \<and>
   (calculator_agent e t s = Inr c
      \<longrightarrow> step e t ''calculator_agent'' s =
            Inr ([''itinerary_agent''], s\<lparr>calculator_result := Some c\<rparr>)) \<and>
   (hotel_agent e t s = Inl y
      \<longrightarrow> run_from e (Suc k) t ''hotel_agent'' s = ([''hotel_agent''], Aborted y)) \<and>
   (weather_agent e t (messages s) = Inl y
      \<longrightarrow> run_from e (Suc k) t ''weather_agent'' s = ([''weather_agent''], Aborted y)) \<and>
   (attractions_agent e t s = Inl y
      \<longrightarrow> run_from e (Suc k) t ''attractions_agent'' s = ([''attractions_agent''], Aborted y)) \<and>
   (calculator_agent e t s = Inl y
      \<longrightarrow> run_from e (Suc k) t ''calculator_agent'' s = ([''calculator_agent''], Aborted y))"
proof (intro conjI impI)
  assume "hotel_agent e t s = Inr raw \<and> hotels_of_json e raw = Inl x \<and>
      (x = JSONDecodeError \<or> x = ValidationError \<or> x = TypeError)"
  then show "step e t ''hotel_agent'' s = Inr ([''weather_agent''], s\<lparr>hotels := Some []\<rparr>)"
    by (auto simp: step_hotel_agent node_hotel_agent_def)
next
  assume "weather_agent e t (messages s) = Inr c"
  then show "step e t ''weather_agent'' s = Inr ([''attractions_agent''], s\<lparr>weather := Some c\<rparr>)"
    by (rule advance_weather_agent)
next
  assume "attractions_agent e t s = Inr c"
  then show "step e t ''attractions_agent'' s =
      Inr ([''calculator_agent''], s\<lparr>attractions := Some c\<rparr>)"
    by (rule advance_attractions_agent)
next
  assume "calculator_agent e t s = Inr c"
  then show "step e t ''calculator_agent'' s =
      Inr ([''itinerary_agent''], s\<lparr>calculator_result := Some c\<rparr>)"
    by (rule advance_calculator_agent)
next
  assume "hotel_agent e t s = Inl y"
  then show "run_from e (Suc k) t ''hotel_agent'' s = ([''hotel_agent''], Aborted y)"
    by (intro run_from_step_abort raise_hotel_agent)
next
  assume "weather_agent e t (messages s) = Inl y"
  then show "run_from e (Suc k) t ''weather_agent'' s = ([''weather_agent''], Aborted y)"
    by (intro run_from_step_abort raise_weather_agent)
next
  assume "attractions_agent e t s = Inl y"
  then show "run_from e (Suc k) t ''attractions_agent'' s = ([''attractions_agent''], Aborted y)"
    by (intro run_from_step_abort raise_attractions_agent)
next
  assume "calculator_agent e t s = Inl y"
  then show "run_from e (Suc k) t ''calculator_agent'' s = ([''calculator_agent''], Aborted y)"
    by (intro run_from_step_abort raise_calculator_agent)
qed

theorem domain_stage_failure_semantics_witness:
  "step (stub_env\<lparr>hotels_of_json := (\<lambda>raw. Inl ValidationError)\<rparr>) 2 ''hotel_agent'' paris_state =
     Inr ([''weather_agent''], paris_state\<lparr>hotels := Some []\<rparr>) \<and>
   step weather_down_env 3 ''attractions_agent'' paris_state =
     Inr ([''calculator_agent''], paris_state\<lparr>attractions := Some ''Louvre; Orsay''\<rparr>) \<and>
   run_from weather_down_env 1 3 ''weather_agent'' paris_state =
     ([''weather_agent''], Aborted (CollaboratorError ''timeout''))"
  using domain_stage_failure_semantics
      [of "stub_env\<lparr>hotels_of_json := (\<lambda>raw. Inl ValidationError)\<rparr>" 2 paris_state "''[{...}]''"
          ValidationError "''Louvre; Orsay''" "CollaboratorError ''timeout''" 0]
    domain_stage_failure_semantics
      [of weather_down_env 3 paris_state "''[{...}]''"
          ValidationError "''Louvre; Orsay''" "CollaboratorError ''timeout''" 0]
  by (simp add: weather_down_env_def stub_env_def)

text \<open>
  C2 as stated fails: with a weather agent that raises, the run does not reach a
  terminal state; it aborts in the weather stage, and no default was written.
\<close>

theorem weather_failure_aborts_run:
  "run weather_down_env 25 paris_state =
     ([''query_analyzer'', ''hotel_agent'', ''weather_agent''], Aborted (CollaboratorError ''timeout''))"
  by (simp add: entry_defs END_def numeral_eq_Suc step_simps node_defs
      weather_down_env_def stub_env_def paris_state_def)

subsection \<open>The linear chain\<close>

text \<open>
  C8, as the code has it.  Take a run that the travel evaluator lets in, in which the
  query analyzer and then the hotel, weather, attractions, calculator and itinerary
  stages each return, every one on the state that the stage before it has left, and
  in which the summary that is then generated is a text without a regeneration
  marker.  Under a step limit of at least 8 this run invokes these seven stages, each
  exactly once and in this order, and finishes with the state that the summary stage
  returns.  Nothing is asked of the collaborators beyond what this run asks them.
\<close>

theorem linear_chain_once:
  assumes gate: "router_travel_evaluator e 0 s = Inr ''TRAVEL''"
    and c1: "node_query_analyzer e 1 s = Inr c1"
    and c2: "node_hotel_agent e 2 (update c1) = Inr c2"
    and c3: "node_weather_agent e 3 (update c2) = Inr c3"
    and c4: "node_attractions_agent e 4 (update c3) = Inr c4"
    and c5: "node_calculator_agent e 5 (update c4) = Inr c5"
    and c6: "node_itinerary_agent e 6 (update c5) = Inr c6"
    and sm: "summary_generator e 7 (summary_args (update c6)) = Inr sm"
    and has_text: "summary_content (Some sm) = PyStr c"
    and none: "re_search (unicode_alnum e) c = None"
    and limit: "8 \<le> limit"
  shows "run e limit s =
           ([''query_analyzer'', ''hotel_agent'', ''weather_agent'', ''attractions_agent'',
             ''calculator_agent'', ''itinerary_agent'', ''summary_agent''],
            Finished ((update c6)\<lparr>summary := Some sm\<rparr>))"
proof -
  from limit obtain k where "limit = 8 + k"
    using le_Suc_ex by blast
  then have k: "limit = Suc (Suc (Suc (Suc (Suc (Suc (Suc (Suc k)))))))"
    by simp
  have s1: "step e 1 ''query_analyzer'' s = Inr ([''hotel_agent''], update c1)"
    using c1 by (simp add: step_query_analyzer)
  have s2: "step e 2 ''hotel_agent'' (update c1) = Inr ([''weather_agent''], update c2)"
    using c2 by (simp add: step_hotel_agent)
  have s3: "step e 3 ''weather_agent'' (update c2) = Inr ([''attractions_agent''], update c3)"
    using c3 by (simp add: step_weather_agent)
  have s4: "step e 4 ''attractions_agent'' (update c3) = Inr ([''calculator_agent''], update c4)"
    using c4 by (simp add: step_attractions_agent)
  have s5: "step e 5 ''calculator_agent'' (update c4) = Inr ([''itinerary_agent''], update c5)"
    using c5 by (simp add: step_calculator_agent)
  have s6: "step e 6 ''itinerary_agent'' (update c5) = Inr ([''summary_agent''], update c6)"
    using c6 by (simp add: step_itinerary_agent)
  have s7: "step e 7 ''summary_agent'' (update c6) = Inr ([], (update c6)\<lparr>summary := Some sm\<rparr>)"
    using sm has_text none by (rule summary_step_no_marker)
  have n: "Suc 1 = 2" "Suc 2 = 3" "Suc 3 = 4" "Suc 4 = 5" "Suc 5 = 6" "Suc 6 = 7" by simp_all
  have "run e limit s = run_from e limit 1 ''query_analyzer'' s"
    using gate by (rule run_enters)
  also have "\<dots> = ([''query_analyzer'', ''hotel_agent'', ''weather_agent'', ''attractions_agent'',
             ''calculator_agent'', ''itinerary_agent'', ''summary_agent''],
             Finished ((update c6)\<lparr>summary := Some sm\<rparr>))"
    unfolding k
    by (simp only: run_from_step_one [OF s1] run_from_step_one [OF s2] run_from_step_one [OF s3]
        run_from_step_one [OF s4] run_from_step_one [OF s5] run_from_step_one [OF s6]
        run_from_step_end [OF s7] n apfst_conv)
  finally show ?thesis .
qed

text \<open>The stub collaborators on the request of the manual test, under the limit 25.\<close>

theorem linear_chain_once_witness:
  "run stub_env 25 paris_state =
     ([''query_analyzer'', ''hotel_agent'', ''weather_agent'', ''attractions_agent'',
       ''calculator_agent'', ''itinerary_agent'', ''summary_agent''],
      Finished (paris_planned (SummaryDict [(''summary'', PyStr ''Final plan: three days in Paris.'')])))"
proof -
  let ?s1 = "paris_state\<lparr>destination := Some ''Paris'', budget := Some 1000,
      native_currency := Some ''USD'', days := Some 3,
      activity_preferences := Some ''art and culture''\<rparr>"
  let ?s2 = "?s1\<lparr>hotels := Some [paris_hotel]\<rparr>"
  let ?s3 = "?s2\<lparr>weather := Some ''mild, 18 C''\<rparr>"
  let ?s4 = "?s3\<lparr>attractions := Some ''Louvre; Orsay''\<rparr>"
  let ?s5 = "?s4\<lparr>calculator_result := Some ''hotel 360, museums 60''\<rparr>"
  let ?s6 = "?s5\<lparr>itinerary := Some ''day 1: Louvre''\<rparr>"
  have gate: "router_travel_evaluator stub_env 0 paris_state = Inr ''TRAVEL''"
    by (simp add: router_travel_evaluator_def last_content_def paris_request stub_env_def)
  have c1: "node_query_analyzer stub_env 1 paris_state = Inr (Command ''hotel_agent'' ?s1)"
    by (simp add: node_query_analyzer_def last_content_def stub_env_def paris_state_def
        paris_analysis_def)
  have c2: "node_hotel_agent stub_env 2 (update (Command ''hotel_agent'' ?s1)) =
      Inr (Command ''weather_agent'' ?s2)"
    by (simp add: node_hotel_agent_def stub_env_def)
  have c3: "node_weather_agent stub_env 3 (update (Command ''weather_agent'' ?s2)) =
      Inr (Command ''attractions_agent'' ?s3)"
    by (simp add: node_weather_agent_def stub_env_def)
  have c4: "node_attractions_agent stub_env 4 (update (Command ''attractions_agent'' ?s3)) =
      Inr (Command ''calculator_agent'' ?s4)"
    by (simp add: node_attractions_agent_def stub_env_def)
  have c5: "node_calculator_agent stub_env 5 (update (Command ''calculator_agent'' ?s4)) =
      Inr (Command ''itinerary_agent'' ?s5)"
    by (simp add: node_calculator_agent_def stub_env_def)
  have c6: "node_itinerary_agent stub_env 6 (update (Command ''itinerary_agent'' ?s5)) =
      Inr (Command ''summary_agent'' ?s6)"
    by (simp add: node_itinerary_agent_def stub_env_def)
  have sm: "summary_generator stub_env 7 (summary_args (update (Command ''summary_agent'' ?s6))) =
      Inr (SummaryDict [(''summary'', PyStr ''Final plan: three days in Paris.'')])"
    by (simp add: stub_env_def)
  have has_text: "summary_content (Some (SummaryDict [(''summary'', PyStr ''Final plan: three days in Paris.'')])) =
      PyStr ''Final plan: three days in Paris.''"
    by (simp add: summary_content_def)
  have limit: "(8::nat) \<le> 25" by simp
  show ?thesis
    using linear_chain_once [OF gate c1 c2 c3 c4 c5 c6 sm has_text no_marker_final limit]
    by (simp add: paris_planned_def paris_state_def)
qed

text \<open>
  C8 as stated fails: this run passes the travel evaluator and the query analyzer and
  its summary stage emits no regeneration signal, yet the calculator agent raises and
  the itinerary and summary stages never run.
\<close>

theorem calculator_failure_stops_chain:
  "run calculator_down_env 25 paris_state =
     ([''query_analyzer'', ''hotel_agent'', ''weather_agent'', ''attractions_agent'',
       ''calculator_agent''], Aborted (CollaboratorError ''refused''))"
  by (simp add: entry_defs END_def numeral_eq_Suc step_simps node_defs
      calculator_down_env_def stub_env_def paris_state_def)

subsection \<open>The summary stage\<close>

text \<open>
  C3: let the summary text contain a regeneration marker, and let \<open>g\<close> be the stage it
  names.  The regeneration targets are the attractions, itinerary and calculator
  stages.  If \<open>g\<close> is one of them the run goes on with \<open>g\<close>; if not, the branch map has
  no entry for \<open>g\<close>, the run aborts with KeyError in the summary stage and \<open>g\<close> is not
  entered.
\<close>

theorem regeneration_only_to_listed_targets:
  assumes "summary_generator e t (summary_args s) = Inr sm"
    and "summary_content (Some sm) = PyStr c"
    and "re_search (unicode_alnum e) c = Some g"
  shows "regeneration_targets = [''attractions_agent'', ''itinerary_agent'', ''calculator_agent''] \<and>
         run_from e (Suc k) t ''summary_agent'' s =
           (if g \<in> set regeneration_targets
            then apfst ((#) ''summary_agent'') (run_from e k (Suc t) g (s\<lparr>summary := Some sm\<rparr>))
            else ([''summary_agent''], Aborted (KeyError g)))"
  using summary_step_marker [OF assms] by (simp add: regeneration_targets_eq)

theorem regeneration_only_to_listed_targets_witness:
  "''hotel_agent'' \<notin> set regeneration_targets \<and>
   run_from hotel_marker_env 1 7 ''summary_agent'' paris_state =
     ([''summary_agent''], Aborted (KeyError ''hotel_agent''))"
proof -
  have a: "summary_generator hotel_marker_env 7 (summary_args paris_state) =
      Inr (SummaryObj ''Too expensive. regenerate:hotel_agent'')"
    by (simp add: hotel_marker_env_def)
  have b: "summary_content (Some (SummaryObj ''Too expensive. regenerate:hotel_agent'')) =
      PyStr ''Too expensive. regenerate:hotel_agent''"
    by (simp add: summary_content_def)
  have m: "re_search (unicode_alnum hotel_marker_env) ''Too expensive. regenerate:hotel_agent'' =
      Some ''hotel_agent''"
    using marker_hotel by (simp add: hotel_marker_env_def stub_env_def del: re_search.simps)
  have c: "''hotel_agent'' \<notin> set regeneration_targets"
    by (simp add: regeneration_targets_eq)
  show ?thesis
    using regeneration_only_to_listed_targets [OF a b m, of 0] c by simp
qed




subsection \<open>Regeneration without a bound\<close>

text \<open>
  C1, as the code has it.  The workflow keeps no count of re-entries and has no
  CycleLimitExceeded condition.  Take a run that the travel evaluator lets in, a
  regeneration target \<open>g\<close> and a number \<open>k\<close>, and let the first \<open>k\<close> stage invocations of
  the run each return, with every summary among them naming \<open>g\<close>.  Then under the step
  limit \<open>k\<close> the run has invoked exactly these \<open>k\<close> stages, it has neither finished nor
  raised an exception of its own, and a stage is still due: only the limit of the
  library stops it.  The stages invoked are the first pass from the query analyzer to
  the summary stage and then the cycle from \<open>g\<close> to the summary stage again and again:
  after \<open>m\<close> rounds \<open>g\<close> is due once more, for every \<open>m\<close>.
\<close>

theorem regeneration_has_no_bound:
  assumes gate: "router_travel_evaluator e 0 s = Inr ''TRAVEL''"
    and g: "g \<in> set regeneration_targets"
    and kr: "keeps_regenerating e g k 1 ''query_analyzer'' s"
  shows "(\<exists>st. run e k s =
            (path g ''query_analyzer'' k, OutOfSteps [walk g ''query_analyzer'' k] st)) \<and>
         length (path g ''query_analyzer'' k) = k \<and>
         path g ''query_analyzer'' (7 + length (regeneration_cycle g) * m) =
           [''query_analyzer'', ''hotel_agent'', ''weather_agent'', ''attractions_agent'',
            ''calculator_agent'', ''itinerary_agent'', ''summary_agent'']
           @ concat (replicate m (regeneration_cycle g)) \<and>
         walk g ''query_analyzer'' (7 + length (regeneration_cycle g) * m) = g"
proof (intro conjI)
  have "run e k s = run_from e k 1 ''query_analyzer'' s"
    using gate by (rule run_enters)
  with regenerating_run [OF kr g]
  show "\<exists>st. run e k s =
      (path g ''query_analyzer'' k, OutOfSteps [walk g ''query_analyzer'' k] st)"
    by simp
  show "length (path g ''query_analyzer'' k) = k"
    by (rule path_length)
  show "path g ''query_analyzer'' (7 + length (regeneration_cycle g) * m) =
           [''query_analyzer'', ''hotel_agent'', ''weather_agent'', ''attractions_agent'',
            ''calculator_agent'', ''itinerary_agent'', ''summary_agent'']
           @ concat (replicate m (regeneration_cycle g))"
    using first_pass_then_rounds [OF g] by blast
  show "walk g ''query_analyzer'' (7 + length (regeneration_cycle g) * m) = g"
    using first_pass_then_rounds [OF g] by blast
qed

text \<open>
  A summary that always asks for the attractions stage, under the limit 27: the first
  pass and five rounds, and the attractions stage due again.
\<close>

theorem regeneration_has_no_bound_witness:
  "(\<exists>st. run regenerating_env 27 paris_state =
      ([''query_analyzer'', ''hotel_agent'', ''weather_agent'', ''attractions_agent'',
        ''calculator_agent'', ''itinerary_agent'', ''summary_agent'']
       @ concat (replicate 5 [''attractions_agent'', ''calculator_agent'', ''itinerary_agent'',
           ''summary_agent'']),
       OutOfSteps [''attractions_agent''] st))"
proof -
  have gate: "router_travel_evaluator regenerating_env 0 paris_state = Inr ''TRAVEL''"
    by (simp add: router_travel_evaluator_def last_content_def paris_request regenerating_env_def
        stub_env_def)
  have g: "''attractions_agent'' \<in> set regeneration_targets"
    by (simp add: regeneration_targets_eq)
  have c: "regeneration_cycle ''attractions_agent'' =
      [''attractions_agent'', ''calculator_agent'', ''itinerary_agent'', ''summary_agent'']"
    by (simp add: regeneration_cycle_def)
  note th = regeneration_has_no_bound [OF gate g regenerating_env_from_start, of 27 5]
  from th have r: "\<exists>st. run regenerating_env 27 paris_state =
      (path ''attractions_agent'' ''query_analyzer'' 27,
       OutOfSteps [walk ''attractions_agent'' ''query_analyzer'' 27] st)"
    by (elim conjE)
  from th have "path ''attractions_agent'' ''query_analyzer''
        (7 + length (regeneration_cycle ''attractions_agent'') * 5) =
      [''query_analyzer'', ''hotel_agent'', ''weather_agent'', ''attractions_agent'',
       ''calculator_agent'', ''itinerary_agent'', ''summary_agent'']
      @ concat (replicate 5 (regeneration_cycle ''attractions_agent''))"
    by (elim conjE)
  then have p: "path ''attractions_agent'' ''query_analyzer'' 27 =
      [''query_analyzer'', ''hotel_agent'', ''weather_agent'', ''attractions_agent'',
       ''calculator_agent'', ''itinerary_agent'', ''summary_agent'']
      @ concat (replicate 5 [''attractions_agent'', ''calculator_agent'', ''itinerary_agent'',
           ''summary_agent''])"
    unfolding c by simp
  from th have "walk ''attractions_agent'' ''query_analyzer''
        (7 + length (regeneration_cycle ''attractions_agent'') * 5) = ''attractions_agent''"
    by (elim conjE)
  then have w: "walk ''attractions_agent'' ''query_analyzer'' 27 = ''attractions_agent''"
    unfolding c by simp
  from r show ?thesis unfolding p w .
qed

text \<open>
  C1 as stated fails, with the recommended bound of 3: the summary always asks for the
  attractions stage, and after 23 steps that stage has been re-entered four times, no
  exception was raised, and it is due for a fifth re-entry.
\<close>

theorem regeneration_exceeds_three_reentries:
  "run regenerating_env 23 paris_state =
     ([''query_analyzer'', ''hotel_agent'', ''weather_agent'',
       ''attractions_agent'', ''calculator_agent'', ''itinerary_agent'', ''summary_agent'',
       ''attractions_agent'', ''calculator_agent'', ''itinerary_agent'', ''summary_agent'',
       ''attractions_agent'', ''calculator_agent'', ''itinerary_agent'', ''summary_agent'',
       ''attractions_agent'', ''calculator_agent'', ''itinerary_agent'', ''summary_agent'',
       ''attractions_agent'', ''calculator_agent'', ''itinerary_agent'', ''summary_agent''],
      OutOfSteps [''attractions_agent'']
        (paris_planned (SummaryObj ''Too few sights. regenerate:attractions_agent'')))"
  by (simp add: entry_defs END_def numeral_eq_Suc step_simps node_defs summary_eval
      marker_attractions regenerating_env_def stub_env_def paris_state_def paris_planned_def
      paris_analysis_def del: re_search.simps)

subsection \<open>One writer for each field\<close>

text \<open>
  C9: for every node of the graph and every state, a field on which the state that
  the node returns differs from the state it was given is a field of that node: the
  nine trip parameters for the query analyzer, \<open>hotels\<close> for the hotel stage, and so on
  to \<open>summary\<close> for the summary stage.  Since the owner is a function of the field, no
  field has two writers, also when a stage is entered again; no node changes
  \<open>messages\<close>.
\<close>

theorem single_writer_per_field:
  assumes "map_of node_table n = Some f"
    and "f e t s = Inr cmd"
    and "\<not> unchanged fld s (update cmd)"
  shows "owner fld = Some n"
  using node_table_cases [OF assms(1)] assms(2,3)
  by (auto dest: frame_query_analyzer frame_hotel_agent frame_weather_agent
      frame_attractions_agent frame_calculator_agent frame_itinerary_agent frame_summary_agent)

theorem single_writer_per_field_witness:
  "\<not> unchanged Hotels paris_state (paris_state\<lparr>hotels := Some [paris_hotel]\<rparr>) \<and>
   owner Hotels = Some ''hotel_agent''"
  using single_writer_per_field
    [of "''hotel_agent''" node_hotel_agent stub_env 2 paris_state
        "Command ''weather_agent'' (paris_state\<lparr>hotels := Some [paris_hotel]\<rparr>)" Hotels]
  by (simp add: node_lookup node_hotel_agent_def stub_env_def paris_state_def)

end
